theory Spec2Isabelle
  imports Complex_Main "HOL-Library.Sublist"
begin

section \<open>NASDAQ returns script: a shallow embedding of \<open>scripts/nasdaq_returns.py\<close>\<close>

text \<open>
  The script is a linear pipeline: \<open>parse_args\<close>, \<open>fetch_price_history\<close>,
  \<open>compute_returns\<close>, \<open>summarize_returns\<close>, \<open>plot_returns\<close>. Its data are pandas
  frames of binary64 numbers. The embedding keeps the frames as objects of a store (so
  that copying and mutation are visible), the exceptions as values of a sum type, and
  the printed text and the displayed chart as fields of the state.

  Numbers. A cell of a frame is a value of \<open>fval\<close>: a finite number, one of the two
  infinities, or NaN (which pandas also uses for "missing"). The special values follow
  IEEE 754 as numpy applies it to a float column: \<open>x / 0\<close> is an infinity for
  \<open>x \<noteq> 0\<close>, \<open>0 / 0\<close>, \<open>0 * inf\<close> and \<open>inf - inf\<close> are NaN, and NaN propagates
  through every operation. A product or a quotient of finite numbers that leaves the
  range of binary64 overflows to an infinity or underflows to zero. Inside that range a
  finite result is the exact rational: the rounding of binary64 to 53 significant bits
  and the sign of zero are outside this model.
\<close>

subsection \<open>Cell values and their arithmetic\<close>

datatype fval = Fin rat | PInf | NInf | NaN

fun fneg :: "fval \<Rightarrow> fval" where
  "fneg (Fin a) = Fin (- a)"
| "fneg PInf = NInf"
| "fneg NInf = PInf"
| "fneg NaN = NaN"

fun fadd :: "fval \<Rightarrow> fval \<Rightarrow> fval" where
  "fadd NaN y = NaN"
| "fadd x NaN = NaN"
| "fadd (Fin a) (Fin b) = Fin (a + b)"
| "fadd (Fin a) y = y"
| "fadd x (Fin b) = x"
| "fadd PInf PInf = PInf"
| "fadd NInf NInf = NInf"
| "fadd PInf NInf = NaN"
| "fadd NInf PInf = NaN"

definition fsub :: "fval \<Rightarrow> fval \<Rightarrow> fval" where
  "fsub x y = fadd x (fneg y)"

text \<open>
  The range of binary64 under rounding to nearest: a result of magnitude at least
  \<open>2^1024 - 2^970\<close> (the largest finite value plus half a unit in its last place)
  becomes an infinity, and a result of magnitude at most \<open>2^-1075\<close> (half the smallest
  subnormal) becomes zero.
\<close>

definition overflow_threshold :: rat where
  "overflow_threshold = 2 ^ 1024 - 2 ^ 970"

definition underflow_threshold :: rat where
  "underflow_threshold = 1 / 2 ^ 1075"

definition range64 :: "rat \<Rightarrow> fval" where
  "range64 q =
     (if overflow_threshold \<le> q then PInf
      else if q \<le> - overflow_threshold then NInf
      else if \<bar>q\<bar> \<le> underflow_threshold then Fin 0
      else Fin q)"

text \<open>
  The script adds and subtracts only the constant 1, which in binary64 neither
  overflows nor underflows, so \<open>fadd\<close> and \<open>fsub\<close> above are exact on finite
  numbers; \<open>fmul\<close> and \<open>fdiv\<close> below pass their finite results through \<open>range64\<close>.
\<close>

text \<open>The sign of an infinity scaled by a finite factor; a zero factor gives NaN.\<close>

definition scale_inf :: "rat \<Rightarrow> fval \<Rightarrow> fval" where
  "scale_inf a i = (if a = 0 then NaN else if 0 < a then i else fneg i)"

fun fmul :: "fval \<Rightarrow> fval \<Rightarrow> fval" where
  "fmul NaN y = NaN"
| "fmul x NaN = NaN"
| "fmul (Fin a) (Fin b) = range64 (a * b)"
| "fmul (Fin a) y = scale_inf a y"
| "fmul x (Fin b) = scale_inf b x"
| "fmul PInf y = y"
| "fmul NInf y = fneg y"

fun fdiv :: "fval \<Rightarrow> fval \<Rightarrow> fval" where
  "fdiv NaN y = NaN"
| "fdiv x NaN = NaN"
| "fdiv (Fin a) (Fin b) =
     (if b = 0 then (if a = 0 then NaN else if 0 < a then PInf else NInf)
      else range64 (a / b))"
| "fdiv (Fin a) y = Fin 0"
| "fdiv x (Fin b) = (if 0 \<le> b then x else fneg x)"
| "fdiv x y = NaN"

subsection \<open>Series operations of pandas\<close>

text \<open>
  A Series is modelled by its values in positional order. Every series of the script
  comes from one frame, so the index alignment pandas performs on assignment and on
  arithmetic is the identity and positions are all that matters.
\<close>

type_synonym series = "fval list"

datatype error =
    RuntimeError string
  | ValueError string
  | KeyError string
  | IndexError string
  | ProviderError string

text \<open>\<open>Series.iloc[i]\<close> with an integer: a negative position counts from the end,
  a position outside the series raises IndexError.\<close>

definition iloc :: "series \<Rightarrow> int \<Rightarrow> error + fval" where
  "iloc xs i =
     (let n = int (length xs);
          k = (if i < 0 then i + n else i)
      in if k < 0 \<or> n \<le> k
         then Inl (IndexError ''single positional indexer is out-of-bounds'')
         else Inr (xs ! nat k))"

text \<open>\<open>Series.fillna(v)\<close>.\<close>

definition fillna :: "fval \<Rightarrow> series \<Rightarrow> series" where
  "fillna v xs = map (\<lambda>x. if x = NaN then v else x) xs"

text \<open>\<open>Series.ffill()\<close>: a NaN takes the last valid value before it, a leading NaN
  stays.\<close>

fun ffill_from :: "fval \<Rightarrow> series \<Rightarrow> series" where
  "ffill_from prev [] = []"
| "ffill_from prev (x # xs) =
     (if x = NaN then prev # ffill_from prev xs else x # ffill_from x xs)"

definition ffill :: "series \<Rightarrow> series" where
  "ffill xs = ffill_from NaN xs"

text \<open>\<open>Series.shift(1)\<close>: every value moves one position down, the first becomes NaN.\<close>

definition shift :: "series \<Rightarrow> series" where
  "shift xs = (if xs = [] then [] else NaN # butlast xs)"

text \<open>
  \<open>Series.pct_change()\<close> computes \<open>data / data.shift(1) - 1\<close>, where \<open>data\<close> is the
  series, forward-filled first when \<open>fill_method\<close> is \<open>'pad'\<close>. The script passes no
  argument, so the fill method is the default of the installed pandas: \<open>'pad'\<close> up to
  pandas 2.x, none from pandas 3. The embedding takes it as a parameter.
\<close>

datatype fill_method = Pad | NoFill

definition pct_change :: "fill_method \<Rightarrow> series \<Rightarrow> series" where
  "pct_change fm xs =
     (let data = (case fm of Pad \<Rightarrow> ffill xs | NoFill \<Rightarrow> xs)
      in map2 (\<lambda>a b. fsub (fdiv a b) (Fin 1)) data (shift data))"

text \<open>\<open>Series.cumprod()\<close> with its default \<open>skipna=True\<close>: a NaN entry gives NaN at
  its position and does not enter the running product.\<close>

fun cumprod_from :: "fval \<Rightarrow> series \<Rightarrow> series" where
  "cumprod_from acc [] = []"
| "cumprod_from acc (x # xs) =
     (if x = NaN then NaN # cumprod_from acc xs
      else fmul acc x # cumprod_from (fmul acc x) xs)"

definition cumprod :: "series \<Rightarrow> series" where
  "cumprod xs = cumprod_from (Fin 1) xs"

subsection \<open>Frames\<close>

datatype datetime =
  Datetime (year: nat) (month: nat) (day: nat) (hour: nat) (minute: nat) (second: nat)

record dataframe =
  index :: "datetime list"
  columns :: "(string \<times> series) list"

text \<open>\<open>df[name]\<close>: the column, or KeyError.\<close>

definition df_getitem :: "dataframe \<Rightarrow> string \<Rightarrow> error + series" where
  "df_getitem df name =
     (case map_of (columns df) name of
        None \<Rightarrow> Inl (KeyError name)
      | Some col \<Rightarrow> Inr col)"

text \<open>\<open>df[name] = col\<close>: replaces the column of that name where it stands, or adds a
  new last column.\<close>

fun set_column :: "string \<Rightarrow> series \<Rightarrow> (string \<times> series) list \<Rightarrow> (string \<times> series) list" where
  "set_column name col [] = [(name, col)]"
| "set_column name col (c # cs) =
     (if fst c = name then (name, col) # cs else c # set_column name col cs)"

definition df_setitem :: "dataframe \<Rightarrow> string \<Rightarrow> series \<Rightarrow> dataframe" where
  "df_setitem df name col = df\<lparr>columns := set_column name col (columns df)\<rparr>"

text \<open>\<open>df.empty\<close>: some axis has length 0.\<close>

definition df_empty :: "dataframe \<Rightarrow> bool" where
  "df_empty df = (index df = [] \<or> columns df = [])"

text \<open>\<open>df[[name]]\<close>: the frame of that one column, or KeyError.\<close>

definition df_select :: "dataframe \<Rightarrow> string \<Rightarrow> error + dataframe" where
  "df_select df name =
     (case map_of (columns df) name of
        None \<Rightarrow> Inl (KeyError name)
      | Some col \<Rightarrow> Inr (df\<lparr>columns := [(name, col)]\<rparr>))"

text \<open>\<open>df.rename(columns={old: new})\<close>.\<close>

definition df_rename :: "string \<Rightarrow> string \<Rightarrow> dataframe \<Rightarrow> dataframe" where
  "df_rename old new df =
     df\<lparr>columns := map (\<lambda>(n, col). (if n = old then new else n, col)) (columns df)\<rparr>"

text \<open>
  \<open>df.dropna()\<close> keeps the rows in which no column holds NaN. \<open>row_mask\<close> marks the
  rows to keep, \<open>select_rows\<close> keeps the marked positions of an axis.
\<close>

fun row_mask :: "nat \<Rightarrow> (string \<times> series) list \<Rightarrow> bool list" where
  "row_mask n [] = replicate n True"
| "row_mask n (c # cs) = map2 (\<lambda>x keep. x \<noteq> NaN \<and> keep) (snd c) (row_mask n cs)"

definition select_rows :: "bool list \<Rightarrow> 'a list \<Rightarrow> 'a list" where
  "select_rows keep xs = map snd (filter fst (zip keep xs))"

definition df_dropna :: "dataframe \<Rightarrow> dataframe" where
  "df_dropna df =
     (let keep = row_mask (length (index df)) (columns df)
      in \<lparr>index = select_rows keep (index df),
          columns = map (\<lambda>(n, col). (n, select_rows keep col)) (columns df)\<rparr>)"

subsection \<open>The state of a run\<close>

text \<open>
  Frames are objects: a variable of the script holds a reference, and \<open>copy\<close>,
  \<open>dropna\<close>, \<open>rename\<close> and \<open>df[[...]]\<close> make new objects. The store maps references to
  frames; \<open>next_ref\<close> is the first reference not yet in use. Standard output is the list
  of printed lines and \<open>figures\<close> the charts that \<open>plt.show()\<close> has displayed.

  A printed line is kept as the pieces of its format string: literal text, and fields
  with the value and the format specification applied to it. Rendering a binary64
  value in decimal is outside this model.
\<close>

type_synonym ref = nat

datatype fragment =
    Text string
  | StrField string
  | DateField datetime string
  | FloatField fval string

record line_plot =
  plot_x :: "datetime list"
  plot_y :: series
  plot_label :: string
  plot_color :: string

record axes =
  ax_lines :: "line_plot list"
  ax_ylabel :: string
  ax_xlabel :: string
  ax_title :: string
  ax_grid :: bool
  ax_legend :: bool

record figure =
  figsize :: "nat \<times> nat"
  sharex :: bool
  fig_axes :: "axes list"

record state =
  frames :: "ref \<Rightarrow> dataframe"
  next_ref :: ref
  stdout :: "fragment list list"
  figures :: "figure list"

type_synonym 'a io = "state \<Rightarrow> (error + 'a) \<times> state"

text \<open>Sequencing: an exception ends the computation and keeps the state reached.\<close>

definition bind_io :: "'a io \<Rightarrow> ('a \<Rightarrow> 'b io) \<Rightarrow> 'b io" where
  "bind_io m f s =
     (case m s of
        (Inl e, s') \<Rightarrow> (Inl e, s')
      | (Inr v, s') \<Rightarrow> f v s')"

definition return_io :: "'a \<Rightarrow> 'a io" where
  "return_io v s = (Inr v, s)"

definition lift_io :: "error + 'a \<Rightarrow> 'a io" where
  "lift_io r s = (r, s)"

definition bind_err :: "error + 'a \<Rightarrow> ('a \<Rightarrow> error + 'b) \<Rightarrow> error + 'b" where
  "bind_err r f = (case r of Inl e \<Rightarrow> Inl e | Inr v \<Rightarrow> f v)"

text \<open>A new frame object.\<close>

definition new_frame :: "dataframe \<Rightarrow> ref io" where
  "new_frame df s =
     (Inr (next_ref s),
      s\<lparr>frames := (frames s)(next_ref s := df), next_ref := Suc (next_ref s)\<rparr>)"

text \<open>\<open>df.copy()\<close>: a new object with the same index and columns.\<close>

definition copy :: "ref \<Rightarrow> ref io" where
  "copy r s = new_frame (frames s r) s"

text \<open>\<open>df[name]\<close> and \<open>df[name] = col\<close> on the object a reference names.\<close>

definition getitem :: "ref \<Rightarrow> string \<Rightarrow> series io" where
  "getitem r name s = (df_getitem (frames s r) name, s)"

definition setitem :: "ref \<Rightarrow> string \<Rightarrow> series \<Rightarrow> unit io" where
  "setitem r name col s =
     (Inr (), s\<lparr>frames := (frames s)(r := df_setitem (frames s r) name col)\<rparr>)"

definition dropna :: "ref \<Rightarrow> ref io" where
  "dropna r s = new_frame (df_dropna (frames s r)) s"

text \<open>\<open>print(...)\<close> of one line.\<close>

definition print :: "fragment list \<Rightarrow> unit io" where
  "print l s = (Inr (), s\<lparr>stdout := stdout s @ [l]\<rparr>)"

text \<open>\<open>plt.show()\<close> of a figure.\<close>

definition show_figure :: "figure \<Rightarrow> unit io" where
  "show_figure fig s = (Inr (), s\<lparr>figures := figures s @ [fig]\<rparr>)"

subsection \<open>\<open>AnalysisConfig\<close>\<close>

record AnalysisConfig =
  ticker :: string
  start_date :: string
  end_date :: string

text \<open>The constructor of the dataclass: each field is the supplied value, or its
  default when the argument is omitted. There is no \<open>__post_init__\<close>: nothing is
  checked.\<close>

definition AnalysisConfig_init ::
    "string option \<Rightarrow> string option \<Rightarrow> string option \<Rightarrow> AnalysisConfig" where
  "AnalysisConfig_init t s e =
     \<lparr>ticker = (case t of None \<Rightarrow> ''^IXIC'' | Some v \<Rightarrow> v),
      start_date = (case s of None \<Rightarrow> ''2005-01-01'' | Some v \<Rightarrow> v),
      end_date = (case e of None \<Rightarrow> ''2025-10-28'' | Some v \<Rightarrow> v)\<rparr>"

text \<open>
  \<open>datetime.fromisoformat\<close> is the standard library's parser: it returns a datetime
  or raises ValueError. The parser is a parameter \<open>parse\<close> of the embedding (\<open>None\<close>
  where it raises); the strings it accepts are what "valid ISO 8601" means below.
\<close>

definition fromisoformat :: "(string \<Rightarrow> datetime option) \<Rightarrow> string \<Rightarrow> error + datetime" where
  "fromisoformat parse str =
     (case parse str of
        None \<Rightarrow> Inl (ValueError (''Invalid isoformat string: '' @ str))
      | Some d \<Rightarrow> Inr d)"

text \<open>The tuple is built left to right: the start date is parsed first.\<close>

definition date_range ::
    "(string \<Rightarrow> datetime option) \<Rightarrow> AnalysisConfig \<Rightarrow> error + datetime \<times> datetime" where
  "date_range parse self =
     bind_err (fromisoformat parse (start_date self)) (\<lambda>start.
     bind_err (fromisoformat parse (end_date self)) (\<lambda>end.
     Inr (start, end)))"

subsection \<open>\<open>fetch_price_history\<close>\<close>

text \<open>
  \<open>yf.download\<close> is the external provider: given ticker, start and end it returns a
  frame or raises an error of its own. It is a parameter \<open>download\<close> of the embedding;
  what it raises is kept apart from the script's own errors as \<open>ProviderError\<close>.
\<close>

type_synonym provider = "string \<Rightarrow> string \<Rightarrow> string \<Rightarrow> string + dataframe"

definition yf_download :: "provider \<Rightarrow> string \<Rightarrow> string \<Rightarrow> string \<Rightarrow> ref io" where
  "yf_download download t s e st =
     (case download t s e of
        Inl msg \<Rightarrow> (Inl (ProviderError msg), st)
      | Inr df \<Rightarrow> new_frame df st)"

definition no_data_message :: string where
  "no_data_message =
     ''No price data was retrieved. Check the ticker symbol and network connectivity.''"

text \<open>The error the specification calls \<open>NoDataError\<close>.\<close>

definition NoDataError :: error where
  "NoDataError = RuntimeError no_data_message"

definition fetch_price_history :: "provider \<Rightarrow> AnalysisConfig \<Rightarrow> ref io" where
  "fetch_price_history download config =
     bind_io (yf_download download (ticker config) (start_date config) (end_date config))
       (\<lambda>price_history s.
          if df_empty (frames s price_history)
          then (Inl (RuntimeError no_data_message), s)
          else bind_io (lift_io (df_select (frames s price_history) ''Adj Close''))
                 (\<lambda>selected. new_frame (df_rename ''Adj Close'' ''adj_close'' selected)) s)"

subsection \<open>\<open>compute_returns\<close>\<close>

definition compute_returns :: "fill_method \<Rightarrow> ref \<Rightarrow> ref io" where
  "compute_returns fm price_history =
     bind_io (copy price_history) (\<lambda>returns.
     bind_io (getitem returns ''adj_close'') (\<lambda>adj_close.
     bind_io (setitem returns ''daily_return'' (fillna (Fin 0) (pct_change fm adj_close))) (\<lambda>_.
     bind_io (getitem returns ''daily_return'') (\<lambda>daily_return.
     let growth_factors = map (fadd (Fin 1)) daily_return in
     bind_io (setitem returns ''cumulative_return''
                (map (\<lambda>x. fsub x (Fin 1)) (cumprod growth_factors))) (\<lambda>_.
     dropna returns)))))"

subsection \<open>\<open>summarize_returns\<close>\<close>

definition summarize_returns ::
    "(string \<Rightarrow> datetime option) \<Rightarrow> ref \<Rightarrow> AnalysisConfig \<Rightarrow> unit io" where
  "summarize_returns parse returns config =
     bind_io (lift_io (date_range parse config)) (\<lambda>(start_date, end_date).
     bind_io (getitem returns ''adj_close'') (\<lambda>col1.
     bind_io (lift_io (iloc col1 0)) (\<lambda>first_price.
     bind_io (getitem returns ''adj_close'') (\<lambda>col2.
     bind_io (lift_io (iloc col2 (- 1))) (\<lambda>last_price.
     bind_io (getitem returns ''cumulative_return'') (\<lambda>col3.
     bind_io (lift_io (iloc col3 (- 1))) (\<lambda>total_return.
     bind_io (print [Text ''Summary for '', StrField (ticker config), Text '' from '',
                     DateField start_date ''%Y-%m-%d'', Text '' to '',
                     DateField end_date ''%Y-%m-%d'', Text '':'']) (\<lambda>_.
     bind_io (print [Text ''  Starting adjusted close: $'', FloatField first_price '',.2f'']) (\<lambda>_.
     bind_io (print [Text ''  Ending adjusted close:   $'', FloatField last_price '',.2f'']) (\<lambda>_.
     print [Text ''  Total cumulative return: '', FloatField total_return ''.2%'']))))))))))"

subsection \<open>\<open>plot_returns\<close>\<close>

definition plot_returns :: "ref \<Rightarrow> AnalysisConfig \<Rightarrow> unit io" where
  "plot_returns returns config =
     bind_io (getitem returns ''adj_close'') (\<lambda>adj_close s.
     let price_ax = \<lparr>ax_lines = [\<lparr>plot_x = index (frames s returns), plot_y = adj_close,
                                      plot_label = ''Adjusted Close'', plot_color = ''#1f77b4''\<rparr>],
                      ax_ylabel = ''Price (USD)'', ax_xlabel = [],
                      ax_title = ticker config @ '' Adjusted Close Price'',
                      ax_grid = True, ax_legend = True\<rparr> in
     bind_io (getitem returns ''cumulative_return'') (\<lambda>cumulative_return s'.
     let cum_ax = \<lparr>ax_lines = [\<lparr>plot_x = index (frames s' returns),
                                    plot_y = map (\<lambda>x. fmul x (Fin 100)) cumulative_return,
                                    plot_label = ''Cumulative Return'', plot_color = ''#ff7f0e''\<rparr>],
                    ax_ylabel = ''Cumulative Return (%)'', ax_xlabel = ''Date'',
                    ax_title = ''Cumulative Return Since Start Date'',
                    ax_grid = True, ax_legend = True\<rparr> in
     show_figure \<lparr>figsize = (12, 8), sharex = True, fig_axes = [price_ax, cum_ax]\<rparr> s') s)"

subsection \<open>\<open>parse_args\<close> and \<open>main\<close>\<close>

text \<open>The command line after argparse has read it: for each flag the value given, or
  \<open>None\<close> when the flag is absent and argparse supplies its default.\<close>

record cli_args =
  arg_ticker :: "string option"
  arg_start_date :: "string option"
  arg_end_date :: "string option"

definition parse_args :: "cli_args \<Rightarrow> AnalysisConfig" where
  "parse_args args =
     AnalysisConfig_init
       (Some (case arg_ticker args of None \<Rightarrow> ''^IXIC'' | Some v \<Rightarrow> v))
       (Some (case arg_start_date args of None \<Rightarrow> ''2005-01-01'' | Some v \<Rightarrow> v))
       (Some (case arg_end_date args of None \<Rightarrow> ''2025-10-28'' | Some v \<Rightarrow> v))"

definition main ::
    "provider \<Rightarrow> (string \<Rightarrow> datetime option) \<Rightarrow> fill_method \<Rightarrow> cli_args \<Rightarrow> unit io" where
  "main download parse fm args =
     (let config = parse_args args in
      bind_io (fetch_price_history download config) (\<lambda>price_history.
      bind_io (compute_returns fm price_history) (\<lambda>returns.
      bind_io (summarize_returns parse returns config) (\<lambda>_.
      plot_returns returns config))))"

text \<open>The state in which a run starts: no frame object, nothing printed or shown.\<close>

definition initial_state :: state where
  "initial_state =
     \<lparr>frames = (\<lambda>_. \<lparr>index = [], columns = []\<rparr>), next_ref = 0, stdout = [], figures = []\<rparr>"

subsection \<open>Reference definitions and sample data\<close>

text \<open>
  The product the specification writes \<open>\<Pi>(1 + daily_return[0..i])\<close>: the growth
  factors of the rows \<open>0..i\<close>, multiplied from the first row on.
\<close>

definition growth_product :: "series \<Rightarrow> nat \<Rightarrow> fval" where
  "growth_product daily i = foldl fmul (Fin 1) (map (fadd (Fin 1)) (take (Suc i) daily))"

text \<open>A parser that knows the two default dates, a provider with three trading days,
  a provider with no data, and the frames of the scenario \<open>[100, 110, 99]\<close>.\<close>

definition default_dates_parse :: "string \<Rightarrow> datetime option" where
  "default_dates_parse str =
     (if str = ''2005-01-01'' then Some (Datetime 2005 1 1 0 0 0)
      else if str = ''2025-10-28'' then Some (Datetime 2025 10 28 0 0 0)
      else None)"

definition sample_prices :: dataframe where
  "sample_prices =
     \<lparr>index = [Datetime 2024 1 2 0 0 0, Datetime 2024 1 3 0 0 0, Datetime 2024 1 4 0 0 0],
      columns = [(''adj_close'', [Fin 100, Fin 110, Fin 99])]\<rparr>"

definition sample_returns :: dataframe where
  "sample_returns =
     \<lparr>index = [Datetime 2024 1 2 0 0 0, Datetime 2024 1 3 0 0 0, Datetime 2024 1 4 0 0 0],
      columns = [(''adj_close'', [Fin 100, Fin 110, Fin 99]),
                 (''daily_return'', [Fin 0, Fin (1 / 10), Fin (- (1 / 10))]),
                 (''cumulative_return'', [Fin 0, Fin (1 / 10), Fin (- (1 / 100))])]\<rparr>"

definition empty_returns :: dataframe where
  "empty_returns =
     \<lparr>index = [],
      columns = [(''adj_close'', []), (''daily_return'', []), (''cumulative_return'', [])]\<rparr>"

definition sample_provider :: provider where
  "sample_provider t s e =
     Inr \<lparr>index = [Datetime 2024 1 2 0 0 0, Datetime 2024 1 3 0 0 0, Datetime 2024 1 4 0 0 0],
          columns = [(''Adj Close'', [Fin 100, Fin 110, Fin 99]),
                     (''Close'', [Fin 101, Fin 111, Fin 100]),
                     (''Volume'', [Fin 5000, Fin 6000, Fin 7000])]\<rparr>"

definition empty_provider :: provider where
  "empty_provider t s e = Inr \<lparr>index = [], columns = []\<rparr>"

text \<open>Two more frames: one with a missing price, one with a zero price.\<close>

definition gap_prices :: dataframe where
  "gap_prices =
     \<lparr>index = [Datetime 2024 1 2 0 0 0, Datetime 2024 1 3 0 0 0, Datetime 2024 1 4 0 0 0],
      columns = [(''adj_close'', [Fin 100, NaN, Fin 110])]\<rparr>"

definition zero_prices :: dataframe where
  "zero_prices =
     \<lparr>index = [Datetime 2024 1 2 0 0 0, Datetime 2024 1 3 0 0 0, Datetime 2024 1 4 0 0 0],
      columns = [(''adj_close'', [Fin 1, Fin 0, Fin 1])]\<rparr>"

text \<open>A frame of positive prices, \<open>2^-600\<close> and \<open>2^600\<close>, whose ratios leave the range
  of binary64.\<close>

definition tiny_price :: rat where
  "tiny_price = 1 / 2 ^ 600"

definition huge_price :: rat where
  "huge_price = 2 ^ 600"

definition overflow_prices :: dataframe where
  "overflow_prices =
     \<lparr>index = [Datetime 2024 1 2 0 0 0, Datetime 2024 1 3 0 0 0, Datetime 2024 1 4 0 0 0],
      columns = [(''adj_close'', [Fin tiny_price, Fin huge_price, Fin tiny_price])]\<rparr>"

section \<open>Properties\<close>

subsection \<open>Cell arithmetic\<close>

lemma overflow_threshold_big: "2 ^ 1000 < overflow_threshold"
proof -
  have "(2::rat) ^ 1024 = 2 ^ 54 * 2 ^ 970" by (simp flip: power_add)
  then have "overflow_threshold = (2 ^ 54 - 1) * 2 ^ 970"
    by (simp add: overflow_threshold_def algebra_simps)
  moreover have "(2::rat) ^ 1000 = 2 ^ 30 * 2 ^ 970" by (simp flip: power_add)
  moreover have "(2::rat) ^ 30 < 2 ^ 54 - 1" by simp
  ultimately show ?thesis by simp
qed

lemma underflow_threshold_small:
  "0 < underflow_threshold" "underflow_threshold < 1 / 2 ^ 1000"
  by (simp_all add: underflow_threshold_def field_simps)

lemma range64_0: "range64 0 = Fin 0"
  using overflow_threshold_big underflow_threshold_small
  by (simp add: range64_def)

lemma range64_moderate:
  assumes "1 / 2 ^ 1000 \<le> \<bar>q\<bar>" and "\<bar>q\<bar> \<le> 2 ^ 1000"
  shows "range64 q = Fin q"
  using assms overflow_threshold_big underflow_threshold_small
  by (auto simp add: range64_def)

lemma range64_1: "range64 1 = Fin 1"
  by (rule range64_moderate) simp_all


lemma range64_again: "range64 q = Fin r \<Longrightarrow> range64 r = Fin r"
  by (auto simp add: range64_def range64_0 split: if_splits)

lemma fmul_range64_one: "fmul (range64 q) (Fin 1) = range64 q"
proof (cases "range64 q")
  case (Fin r)
  then show ?thesis by (simp add: range64_again)
qed (simp_all add: scale_inf_def)

lemma fmul_fmul_one: "fmul (fmul a x) (Fin 1) = fmul a x"
  by (cases a; cases x) (simp_all add: scale_inf_def fmul_range64_one)

lemma fmul_one_one: "fmul (Fin 1) (Fin 1) = Fin 1"
  by (simp add: range64_1)

lemma range64_small:
  assumes "1 / 1000 \<le> \<bar>q\<bar>" and "\<bar>q\<bar> \<le> 1000"
  shows "range64 q = Fin q"
proof (rule range64_moderate)
  have big: "(1000::rat) \<le> 2 ^ 1000"
    by (rule order_trans [of _ "2 ^ 10"]) simp_all
  then have "(1::rat) / 2 ^ 1000 \<le> 1 / 1000"
    by (intro divide_left_mono) simp_all
  with assms(1) show "1 / 2 ^ 1000 \<le> \<bar>q\<bar>" by simp
  from big assms(2) show "\<bar>q\<bar> \<le> 2 ^ 1000" by simp
qed

text \<open>The quotients of the overflowing sample prices.\<close>

lemma overflow_quotient: "fdiv (Fin huge_price) (Fin tiny_price) = PInf"
  by (simp add: huge_price_def tiny_price_def range64_def overflow_threshold_def)

lemma underflow_quotient: "fdiv (Fin tiny_price) (Fin huge_price) = Fin 0"
  by (simp add: huge_price_def tiny_price_def range64_def overflow_threshold_def
      underflow_threshold_def)


lemma fadd_fsub_one: "fadd (Fin 1) (fsub p (Fin 1)) = p"
  by (cases p) (simp_all add: fsub_def)

lemma fsub_one_NaN: "(fsub p (Fin 1) = NaN) = (p = NaN)"
  by (cases p) (simp_all add: fsub_def)

lemma fadd_one_NaN: "(fadd (Fin 1) x = NaN) = (x = NaN)"
  by (cases x) simp_all

lemma fdiv_self: "fsub (fdiv v v) (Fin 1) = Fin 0 \<or> fsub (fdiv v v) (Fin 1) = NaN"
  by (cases v) (simp_all add: fsub_def range64_1)

lemma fdiv_NaN_right: "fdiv x NaN = NaN"
  by (cases x) simp_all


subsection \<open>Series\<close>

lemma length_fillna: "length (fillna v xs) = length xs"
  by (simp add: fillna_def)

lemma length_ffill_from: "length (ffill_from p xs) = length xs"
  by (induction xs arbitrary: p) simp_all

lemma length_shift: "length (shift xs) = length xs"
  by (simp add: shift_def)

lemma length_pct_change: "length (pct_change fm xs) = length xs"
  by (cases fm) (simp_all add: pct_change_def ffill_def length_ffill_from length_shift Let_def)

lemma length_cumprod_from: "length (cumprod_from a xs) = length xs"
  by (induction xs arbitrary: a) simp_all

lemma fillna_no_NaN: "v \<noteq> NaN \<Longrightarrow> NaN \<notin> set (fillna v xs)"
  by (auto simp add: fillna_def)

lemma fillna_nth:
  "i < length xs \<Longrightarrow> fillna v xs ! i = (if xs ! i = NaN then v else xs ! i)"
  by (simp add: fillna_def)

lemma shift_nth: "i < length xs \<Longrightarrow> shift xs ! i = (if i = 0 then NaN else xs ! (i - 1))"
  by (cases i) (auto simp add: shift_def nth_butlast)

lemma ffill_from_nth_NaN:
  "i < length xs \<Longrightarrow> xs ! i = NaN \<Longrightarrow>
   ffill_from p xs ! i = (if i = 0 then p else ffill_from p xs ! (i - 1))"
proof (induction xs arbitrary: p i)
  case Nil
  then show ?case by simp
next
  case (Cons x xs)
  show ?case
  proof (cases i)
    case 0
    with Cons.prems show ?thesis by simp
  next
    case (Suc j)
    with Cons.prems have j: "j < length xs" "xs ! j = NaN" by simp_all
    from Cons.IH [OF j] Suc show ?thesis
      by (cases j) simp_all
  qed
qed

lemma pct_change_nth:
  "i < length xs \<Longrightarrow>
   pct_change fm xs ! i =
     fsub (fdiv ((case fm of Pad \<Rightarrow> ffill xs | NoFill \<Rightarrow> xs) ! i)
             (if i = 0 then NaN
              else (case fm of Pad \<Rightarrow> ffill xs | NoFill \<Rightarrow> xs) ! (i - 1)))
       (Fin 1)"
  by (cases fm)
    (simp_all add: pct_change_def Let_def ffill_def length_ffill_from length_shift shift_nth)

lemma daily_return_at_missing:
  assumes "i < length xs" and "xs ! i = NaN"
  shows "fillna (Fin 0) (pct_change fm xs) ! i = Fin 0"
proof -
  have "pct_change fm xs ! i = Fin 0 \<or> pct_change fm xs ! i = NaN"
  proof (cases fm)
    case NoFill
    with assms show ?thesis by (simp add: pct_change_nth fsub_def)
  next
    case Pad
    show ?thesis
    proof (cases "i = 0")
      case True
      with assms Pad show ?thesis
        by (simp add: pct_change_nth fdiv_NaN_right fsub_def)
    next
      case False
      with assms Pad ffill_from_nth_NaN [OF assms, of NaN] show ?thesis
        by (simp add: pct_change_nth ffill_def fdiv_self)
    qed
  qed
  with assms show ?thesis
    by (auto simp add: fillna_nth length_pct_change)
qed

subsection \<open>Dropping rows\<close>



lemma select_rows_Nil [simp]: "select_rows [] xs = []" "select_rows ks [] = []"
  by (simp_all add: select_rows_def)

lemma select_rows_Cons [simp]:
  "select_rows (k # ks) (x # xs) = (if k then x # select_rows ks xs else select_rows ks xs)"
  by (simp add: select_rows_def)

lemma select_rows_map: "select_rows ks (map f xs) = map f (select_rows ks xs)"
  by (simp add: select_rows_def zip_map2 filter_map comp_def case_prod_unfold)

lemma select_rows_set: "set (select_rows ks xs) \<subseteq> set xs"
  by (auto simp add: select_rows_def dest: set_zip_rightD)

lemma select_rows_subseq: "subseq (select_rows ks xs) xs"
proof (induction xs arbitrary: ks)
  case Nil
  then show ?case by simp
next
  case (Cons x xs)
  then show ?case by (cases ks) auto
qed

lemma select_rows_all: "length xs \<le> n \<Longrightarrow> select_rows (replicate n True) xs = xs"
proof (induction xs arbitrary: n)
  case Nil
  then show ?case by simp
next
  case (Cons x xs)
  then show ?case by (cases n) simp_all
qed

lemma row_mask_three:
  assumes "length xs = n" and "length d = n" and "length c = n"
  shows "length (row_mask n [(n1, xs), (n2, d), (n3, c)]) = n"
    and "i < n \<Longrightarrow> row_mask n [(n1, xs), (n2, d), (n3, c)] ! i =
           (xs ! i \<noteq> NaN \<and> d ! i \<noteq> NaN \<and> c ! i \<noteq> NaN)"
  using assms by simp_all

lemma row_mask_all:
  assumes "length xs = n" and "length d = n" and "length c = n"
    and "NaN \<notin> set xs" and "NaN \<notin> set d" and "NaN \<notin> set c"
  shows "row_mask n [(n1, xs), (n2, d), (n3, c)] = replicate n True"
proof (rule nth_equalityI)
  show "length (row_mask n [(n1, xs), (n2, d), (n3, c)]) = length (replicate n True)"
    using assms by simp
next
  fix i assume "i < length (row_mask n [(n1, xs), (n2, d), (n3, c)])"
  with assms have i: "i < n" by simp
  with assms have "xs ! i \<noteq> NaN" "d ! i \<noteq> NaN" "c ! i \<noteq> NaN"
    by (metis nth_mem)+
  with i assms show "row_mask n [(n1, xs), (n2, d), (n3, c)] ! i = replicate n True ! i"
    by simp
qed

text \<open>
  The running product commutes with dropping rows, provided every dropped row either
  has growth factor 1 or has a NaN running product (and then so have all rows after it).
\<close>

lemma cumprod_from_NaN_drop:
  assumes "list_all2 (\<lambda>k (p, x). (k \<longrightarrow> p \<noteq> NaN)) keep (zip (cumprod_from NaN g) g)"
  shows "select_rows keep ys = []"
  using assms
proof (induction g arbitrary: keep ys)
  case Nil
  then show ?case by simp
next
  case (Cons x g)
  then obtain k ks where keep: "keep = k # ks"
    by (cases keep) (simp_all split: if_splits)
  with Cons.prems have k: "\<not> k"
    and ks: "list_all2 (\<lambda>k (p, x). (k \<longrightarrow> p \<noteq> NaN)) ks (zip (cumprod_from NaN g) g)"
    by (simp_all split: if_splits)
  from Cons.IH [OF ks] k keep show ?case
    by (cases ys) simp_all
qed

lemma select_rows_cumprod_from:
  assumes "list_all2 (\<lambda>k (p, x). (k \<longrightarrow> p \<noteq> NaN) \<and> (\<not> k \<longrightarrow> x = Fin 1 \<or> p = NaN))
             keep (zip (cumprod_from a g) g)"
    and "fmul a (Fin 1) = a"
  shows "select_rows keep (cumprod_from a g) = cumprod_from a (select_rows keep g)"
  using assms
proof (induction g arbitrary: a keep)
  case Nil
  then show ?case by simp
next
  case (Cons x g)
  then obtain k ks where keep: "keep = k # ks"
    by (cases keep) (simp_all split: if_splits)
  let ?Q = "\<lambda>k (p, x). (k \<longrightarrow> p \<noteq> NaN) \<and> (\<not> k \<longrightarrow> x = Fin 1 \<or> p = NaN)"
  note a1 = \<open>fmul a (Fin 1) = a\<close>
  show ?case
  proof (cases "x = NaN")
    case True
    with Cons.prems keep have k: "\<not> k" and ks: "list_all2 ?Q ks (zip (cumprod_from a g) g)"
      by simp_all
    from Cons.IH [OF ks a1] k keep True show ?thesis by simp
  next
    case False
    with Cons.prems keep
    have hd: "?Q k (fmul a x, x)"
      and ks: "list_all2 ?Q ks (zip (cumprod_from (fmul a x) g) g)"
      by simp_all
    note step = Cons.IH [OF ks fmul_fmul_one]
    show ?thesis
    proof (cases k)
      case True
      with step keep False show ?thesis by simp
    next
      case nk: False
      show ?thesis
      proof (cases "fmul a x = NaN")
        case True
        from ks have "list_all2 (\<lambda>k (p, x). (k \<longrightarrow> p \<noteq> NaN)) ks (zip (cumprod_from NaN g) g)"
          unfolding True by (rule list_all2_mono) auto
        then have none: "select_rows ks ys = []" for ys :: series
          by (rule cumprod_from_NaN_drop)
        from keep nk False show ?thesis by (simp add: none)
      next
        case nn: False
        with hd nk have x: "x = Fin 1" by simp
        from step keep nk False x show ?thesis
          by (simp add: a1)
      qed
    qed
  qed
qed

lemma cumprod_from_nth:
  "NaN \<notin> set g \<Longrightarrow> i < length g \<Longrightarrow> cumprod_from a g ! i = foldl fmul a (take (Suc i) g)"
proof (induction g arbitrary: a i)
  case Nil
  then show ?case by simp
next
  case (Cons x g)
  then show ?case by (cases i) auto
qed

lemma kept_rows_product:
  assumes d: "d = fillna (Fin 0) (pct_change fm xs)"
    and c: "c = map (\<lambda>x. fsub x (Fin 1)) (cumprod (map (fadd (Fin 1)) d))"
    and keep: "keep = row_mask (length xs) [(n1, xs), (n2, d), (n3, c)]"
  shows "map (fadd (Fin 1)) (select_rows keep c) =
         cumprod (map (fadd (Fin 1)) (select_rows keep d))"
proof -
  define g where "g = map (fadd (Fin 1)) d"
  define P where "P = cumprod_from (Fin 1) g"
  let ?Q = "\<lambda>k (p, x). (k \<longrightarrow> p \<noteq> NaN) \<and> (\<not> k \<longrightarrow> x = Fin 1 \<or> p = NaN)"
  have ld: "length d = length xs"
    by (simp add: d length_fillna length_pct_change)
  have lg: "length g = length xs" by (simp add: g_def ld)
  have lP: "length P = length xs" by (simp add: P_def length_cumprod_from lg)
  have cP: "c = map (\<lambda>x. fsub x (Fin 1)) P" by (simp add: c P_def g_def cumprod_def)
  have lc: "length c = length xs" by (simp add: cP lP)
  have lk: "length keep = length xs"
    unfolding keep by (rule row_mask_three(1)) (simp_all add: ld lc)
  have kn: "keep ! i = (xs ! i \<noteq> NaN \<and> d ! i \<noteq> NaN \<and> c ! i \<noteq> NaN)" if "i < length xs" for i
    unfolding keep using that by (intro row_mask_three(2)) (simp_all add: ld lc)
  have Q: "list_all2 ?Q keep (zip P g)"
  proof (rule list_all2_all_nthI)
    show "length keep = length (zip P g)" by (simp add: lk lP lg)
  next
    fix i assume "i < length keep"
    then have i: "i < length xs" by (simp add: lk)
    have dn: "d ! i \<noteq> NaN"
      using fillna_no_NaN [of "Fin 0" "pct_change fm xs"] i ld
      by (metis d fval.distinct(5) nth_mem)
    have ci: "c ! i = fsub (P ! i) (Fin 1)" using i by (simp add: cP lP)
    have gi: "g ! i = fadd (Fin 1) (d ! i)" using i by (simp add: g_def ld)
    have miss: "xs ! i = NaN \<Longrightarrow> g ! i = Fin 1"
      using daily_return_at_missing [OF i, of fm] by (simp add: gi d)
    show "?Q (keep ! i) (zip P g ! i)"
      using i dn miss by (auto simp add: kn lP lg ci fsub_one_NaN)
  qed
  have "select_rows keep P = cumprod_from (Fin 1) (select_rows keep g)"
    unfolding P_def using Q [unfolded P_def] fmul_one_one by (rule select_rows_cumprod_from)
  moreover have "map (fadd (Fin 1)) (select_rows keep c) = select_rows keep P"
    by (simp add: cP select_rows_map fadd_fsub_one comp_def)
  moreover have "select_rows keep g = map (fadd (Fin 1)) (select_rows keep d)"
    by (simp add: g_def select_rows_map)
  ultimately show ?thesis by (simp add: cumprod_def)
qed

lemma cumprod_growth_product:
  assumes "NaN \<notin> set d" and "i < length d"
  shows "cumprod (map (fadd (Fin 1)) d) ! i = growth_product d i"
proof -
  have "NaN \<notin> set (map (fadd (Fin 1)) d)"
    using assms(1) by (auto simp add: fadd_one_NaN eq_commute [of NaN])
  then show ?thesis
    using assms(2) by (simp add: cumprod_def cumprod_from_nth growth_product_def take_map)
qed

subsection \<open>Positional access\<close>

lemma select_rows_prefix:
  "length xs = n + m \<Longrightarrow> select_rows (replicate n True @ replicate m False) xs = take n xs"
proof (induction n arbitrary: xs)
  case 0
  then show ?case
  proof (induction m arbitrary: xs)
    case 0
    then show ?case by simp
  next
    case (Suc m)
    then show ?case by (cases xs) simp_all
  qed
next
  case (Suc n)
  then show ?case by (cases xs) simp_all
qed

lemma select_rows_filter:
  "length zs = length ts \<Longrightarrow>
   select_rows (map f zs) ts = map fst (filter (\<lambda>(t, z). f z) (zip ts zs))"
proof (induction ts arbitrary: zs)
  case Nil
  then show ?case by simp
next
  case (Cons t ts)
  then show ?case by (cases zs) simp_all
qed

lemma row_mask_price_and_return:
  assumes "length xs = n" and "length d = n" and "length c = n" and "NaN \<notin> set d"
  shows "row_mask n [(n1, xs), (n2, d), (n3, c)] =
     map (\<lambda>(x, y). x \<noteq> NaN \<and> y \<noteq> NaN) (zip xs c)"
proof (rule nth_equalityI)
  show "length (row_mask n [(n1, xs), (n2, d), (n3, c)]) =
      length (map (\<lambda>(x, y). x \<noteq> NaN \<and> y \<noteq> NaN) (zip xs c))"
    using assms by simp
next
  fix i assume "i < length (row_mask n [(n1, xs), (n2, d), (n3, c)])"
  with assms have i: "i < n" by simp
  with assms have "d ! i \<noteq> NaN" by (metis nth_mem)
  with i assms show "row_mask n [(n1, xs), (n2, d), (n3, c)] ! i =
      map (\<lambda>(x, y). x \<noteq> NaN \<and> y \<noteq> NaN) (zip xs c) ! i"
    by simp
qed

lemma row_mask_defined_return:
  assumes "length xs = n" and "length d = n" and "length c = n"
    and "NaN \<notin> set xs" and "NaN \<notin> set d"
  shows "row_mask n [(n1, xs), (n2, d), (n3, c)] = map (\<lambda>y. y \<noteq> NaN) c"
proof (rule nth_equalityI)
  show "length (row_mask n [(n1, xs), (n2, d), (n3, c)]) = length (map (\<lambda>y. y \<noteq> NaN) c)"
    using assms by simp
next
  fix i assume "i < length (row_mask n [(n1, xs), (n2, d), (n3, c)])"
  with assms have i: "i < n" by simp
  with assms have "d ! i \<noteq> NaN" "xs ! i \<noteq> NaN" by (metis nth_mem)+
  with i assms show "row_mask n [(n1, xs), (n2, d), (n3, c)] ! i = map (\<lambda>y. y \<noteq> NaN) c ! i"
    by simp
qed

lemma cumprod_from_NaN_all: "cumprod_from NaN g = replicate (length g) NaN"
  by (induction g) simp_all

lemma cumprod_from_defined_prefix:
  "\<exists>n\<le>length g. map (\<lambda>p. p \<noteq> NaN) (cumprod_from a g) =
      replicate n True @ replicate (length g - n) False
    \<and> (g \<noteq> [] \<and> hd g \<noteq> NaN \<and> fmul a (hd g) \<noteq> NaN \<longrightarrow> 0 < n)"
  if "NaN \<notin> set g"
  using that
proof (induction g arbitrary: a)
  case Nil
  then show ?case by simp
next
  case (Cons x g)
  then have x: "x \<noteq> NaN" and g: "NaN \<notin> set g" by auto
  show ?case
  proof (cases "fmul a x = NaN")
    case True
    with x have "map (\<lambda>p. p \<noteq> NaN) (cumprod_from a (x # g)) =
        replicate 0 True @ replicate (length (x # g) - 0) False"
      by (simp add: cumprod_from_NaN_all)
    with True show ?thesis by (intro exI [of _ 0]) simp
  next
    case False
    from Cons.IH [OF g, of "fmul a x"] obtain n where n: "n \<le> length g"
      and m: "map (\<lambda>p. p \<noteq> NaN) (cumprod_from (fmul a x) g) =
        replicate n True @ replicate (length g - n) False"
      by blast
    with x False have "map (\<lambda>p. p \<noteq> NaN) (cumprod_from a (x # g)) =
        replicate (Suc n) True @ replicate (length (x # g) - Suc n) False"
      by simp
    with n show ?thesis by (intro exI [of _ "Suc n"]) simp
  qed
qed

text \<open>
  With no missing price, the rows \<open>dropna\<close> keeps are a prefix of the rows: the
  running product, once NaN, stays NaN.
\<close>

lemma kept_rows_prefix:
  assumes d: "d = fillna (Fin 0) (pct_change fm xs)"
    and c: "c = map (\<lambda>x. fsub x (Fin 1)) (cumprod (map (fadd (Fin 1)) d))"
    and nx: "NaN \<notin> set xs"
  shows "\<exists>n\<le>length xs. row_mask (length xs) [(n1, xs), (n2, d), (n3, c)] =
      replicate n True @ replicate (length xs - n) False
    \<and> (xs \<noteq> [] \<longrightarrow> 0 < n)"
proof -
  let ?g = "map (fadd (Fin 1)) d"
  have ld: "length d = length xs" by (simp add: d length_fillna length_pct_change)
  have lc: "length c = length xs" by (simp add: c cumprod_def length_cumprod_from ld)
  have nd: "NaN \<notin> set d" by (simp add: d fillna_no_NaN)
  have ng: "NaN \<notin> set ?g"
    using nd by (auto simp add: fadd_one_NaN eq_commute [of NaN])
  have mc: "map (\<lambda>y. y \<noteq> NaN) c = map (\<lambda>p. p \<noteq> NaN) (cumprod_from (Fin 1) ?g)"
    by (simp add: c cumprod_def fsub_one_NaN comp_def)
  have first: "hd ?g = Fin 1" if "xs \<noteq> []"
  proof -
    from that have 0: "0 < length xs" by simp
    have "pct_change fm xs ! 0 = NaN"
      using 0 by (simp add: pct_change_nth fdiv_NaN_right fsub_def)
    then have "d ! 0 = Fin 0" using 0 by (simp add: d fillna_nth length_pct_change)
    moreover from that ld have "d \<noteq> []" by auto
    ultimately show ?thesis by (simp add: hd_map hd_conv_nth)
  qed
  from cumprod_from_defined_prefix [OF ng, of "Fin 1"] obtain n
    where n: "n \<le> length ?g"
      and m: "map (\<lambda>p. p \<noteq> NaN) (cumprod_from (Fin 1) ?g) =
        replicate n True @ replicate (length ?g - n) False"
      and pos: "?g \<noteq> [] \<and> hd ?g \<noteq> NaN \<and> fmul (Fin 1) (hd ?g) \<noteq> NaN \<longrightarrow> 0 < n"
    by blast
  have "row_mask (length xs) [(n1, xs), (n2, d), (n3, c)] =
      replicate n True @ replicate (length xs - n) False"
    using row_mask_defined_return [OF refl ld lc nx nd, of n1 n2 n3] m
    by (simp add: mc ld)
  moreover have "0 < n" if "xs \<noteq> []"
    using pos first [OF that] that ld by (auto simp add: range64_1)
  ultimately show ?thesis using n by (auto simp add: ld)
qed

lemma iloc_first: "xs \<noteq> [] \<Longrightarrow> iloc xs 0 = Inr (hd xs)"
  by (cases xs) (simp_all add: iloc_def)

lemma iloc_last: "xs \<noteq> [] \<Longrightarrow> iloc xs (- 1) = Inr (last xs)"
proof -
  assume ne: "xs \<noteq> []"
  then have "nat (- 1 + int (length xs)) = length xs - 1"
    by (cases xs) simp_all
  with ne show ?thesis
    by (simp add: iloc_def last_conv_nth)
qed

lemma iloc_empty: "iloc [] i = Inl (IndexError ''single positional indexer is out-of-bounds'')"
  by (simp add: iloc_def Let_def)

subsection \<open>Running the stages\<close>

lemma fetch_price_history_cases:
  "fetch_price_history dl cfg s =
     (case dl (ticker cfg) (start_date cfg) (end_date cfg) of
        Inl msg \<Rightarrow> (Inl (ProviderError msg), s)
      | Inr df \<Rightarrow>
          (let s1 = s\<lparr>frames := (frames s)(next_ref s := df), next_ref := Suc (next_ref s)\<rparr>
           in if df_empty df then (Inl (RuntimeError no_data_message), s1)
              else (case df_select df ''Adj Close'' of
                      Inl e \<Rightarrow> (Inl e, s1)
                    | Inr sel \<Rightarrow> new_frame (df_rename ''Adj Close'' ''adj_close'' sel) s1)))"
  by (simp add: fetch_price_history_def bind_io_def yf_download_def new_frame_def lift_io_def
      Let_def split: sum.split)

lemma fetch_price_history_output:
  "stdout (snd (fetch_price_history dl cfg s)) = stdout s
   \<and> figures (snd (fetch_price_history dl cfg s)) = figures s"
  by (simp add: fetch_price_history_cases new_frame_def Let_def split: sum.split)

lemma fetch_price_history_ref:
  "fetch_price_history dl cfg s = (Inr ph, s1) \<Longrightarrow> ph < next_ref s1"
  by (auto simp add: fetch_price_history_cases new_frame_def Let_def df_select_def
      split: sum.splits if_splits option.splits)

lemma main_after_fetch_error:
  "fetch_price_history dl (parse_args args) s = (Inl e, s') \<Longrightarrow>
   main dl parse fm args s = (Inl e, s')"
  by (simp add: main_def bind_io_def Let_def)

lemma main_after_fetch:
  "fetch_price_history dl (parse_args args) s = (Inr ph, s1) \<Longrightarrow>
   main dl parse fm args s =
     bind_io (compute_returns fm ph) (\<lambda>returns.
     bind_io (summarize_returns parse returns (parse_args args)) (\<lambda>_.
     plot_returns returns (parse_args args))) s1"
  by (simp add: main_def bind_io_def Let_def)

lemma compute_returns_frames:
  "r < next_ref s \<Longrightarrow> frames (snd (compute_returns fm ph s)) r = frames s r"
  by (simp add: compute_returns_def bind_io_def copy_def new_frame_def getitem_def setitem_def
      dropna_def Let_def split: sum.split)

lemma summarize_returns_frames:
  "frames (snd (summarize_returns parse r cfg s)) = frames s"
  by (simp add: summarize_returns_def bind_io_def lift_io_def getitem_def print_def
      split: sum.split prod.split)

lemma plot_returns_frames: "frames (snd (plot_returns r cfg s)) = frames s"
  by (simp add: plot_returns_def bind_io_def getitem_def show_figure_def Let_def
      split: sum.split)

lemma date_range_error: "date_range parse cfg = Inl e \<Longrightarrow> \<exists>msg. e = ValueError msg"
  by (auto simp add: date_range_def fromisoformat_def bind_err_def split: option.splits)

lemma summarize_returns_exec:
  assumes "date_range parse cfg = Inr (sd, ed)"
    and "df_getitem (frames s r) ''adj_close'' = Inr a"
    and "df_getitem (frames s r) ''cumulative_return'' = Inr c"
    and "a \<noteq> []" and "c \<noteq> []"
  shows "summarize_returns parse r cfg s =
    (Inr (), s\<lparr>stdout := stdout s @
       [[Text ''Summary for '', StrField (ticker cfg), Text '' from '',
         DateField sd ''%Y-%m-%d'', Text '' to '', DateField ed ''%Y-%m-%d'', Text '':''],
        [Text ''  Starting adjusted close: $'', FloatField (hd a) '',.2f''],
        [Text ''  Ending adjusted close:   $'', FloatField (last a) '',.2f''],
        [Text ''  Total cumulative return: '', FloatField (last c) ''.2%'']]\<rparr>)"
  using assms
  by (simp add: summarize_returns_def bind_io_def lift_io_def getitem_def print_def
      iloc_first iloc_last)

lemma summarize_returns_date_error:
  assumes "date_range parse cfg = Inl e"
  shows "summarize_returns parse r cfg s = (Inl e, s)"
  using assms by (simp add: summarize_returns_def bind_io_def lift_io_def)

lemma summarize_returns_empty:
  assumes "date_range parse cfg = Inr (sd, ed)"
    and "df_getitem (frames s r) ''adj_close'' = Inr []"
  shows "summarize_returns parse r cfg s =
    (Inl (IndexError ''single positional indexer is out-of-bounds''), s)"
  using assms
  by (simp add: summarize_returns_def bind_io_def lift_io_def getitem_def iloc_empty)

lemma compute_returns_exec:
  assumes "columns (frames s ph) = [(''adj_close'', xs)]"
  shows "compute_returns fm ph s =
    (let d = fillna (Fin 0) (pct_change fm xs);
         c = map (\<lambda>x. fsub x (Fin 1)) (cumprod (map (fadd (Fin 1)) d));
         R = (frames s ph)\<lparr>columns :=
               [(''adj_close'', xs), (''daily_return'', d), (''cumulative_return'', c)]\<rparr>
     in (Inr (Suc (next_ref s)),
         s\<lparr>frames := (frames s)(next_ref s := R, Suc (next_ref s) := df_dropna R),
           next_ref := Suc (Suc (next_ref s))\<rparr>))"
  using assms
  by (simp add: compute_returns_def bind_io_def copy_def new_frame_def getitem_def setitem_def
      dropna_def df_getitem_def df_setitem_def Let_def)

lemma compute_returns_result:
  assumes cols: "columns (frames s ph) = [(''adj_close'', xs)]"
  shows "\<exists>s'. compute_returns fm ph s = (Inr (Suc (next_ref s)), s')
     \<and> frames s' (Suc (next_ref s)) =
         df_dropna ((frames s ph)\<lparr>columns :=
           [(''adj_close'', xs),
            (''daily_return'', fillna (Fin 0) (pct_change fm xs)),
            (''cumulative_return'',
               map (\<lambda>x. fsub x (Fin 1))
                 (cumprod (map (fadd (Fin 1)) (fillna (Fin 0) (pct_change fm xs)))))]\<rparr>)"
  by (simp add: compute_returns_exec [OF cols] Let_def)

lemma compute_returns_index:
  assumes "compute_returns fm ph s = (Inr r, s')"
  shows "\<exists>keep. index (frames s' r) = select_rows keep (index (frames s ph))"
  using assms
  by (auto simp add: compute_returns_def bind_io_def copy_def new_frame_def getitem_def
      setitem_def dropna_def df_setitem_def df_dropna_def Let_def
      split: sum.splits prod.splits)

lemma compute_returns_frames_after:
  assumes cols: "columns (frames s ph) = [(''adj_close'', xs)]"
  shows "\<exists>s'. compute_returns fm ph s = (Inr (Suc (next_ref s)), s')
     \<and> frames s' (next_ref s) =
         (frames s ph)\<lparr>columns :=
           [(''adj_close'', xs),
            (''daily_return'', fillna (Fin 0) (pct_change fm xs)),
            (''cumulative_return'',
               map (\<lambda>x. fsub x (Fin 1))
                 (cumprod (map (fadd (Fin 1)) (fillna (Fin 0) (pct_change fm xs)))))]\<rparr>
     \<and> frames s' (Suc (next_ref s)) = df_dropna (frames s' (next_ref s))"
  by (simp add: compute_returns_exec [OF cols] Let_def)

lemma dropna_three:
  assumes "length (index df) = length xs"
  shows "df_dropna (df\<lparr>columns := [(n1, xs), (n2, d), (n3, c)]\<rparr>) =
     \<lparr>index = select_rows (row_mask (length xs) [(n1, xs), (n2, d), (n3, c)]) (index df),
      columns =
        [(n1, select_rows (row_mask (length xs) [(n1, xs), (n2, d), (n3, c)]) xs),
         (n2, select_rows (row_mask (length xs) [(n1, xs), (n2, d), (n3, c)]) d),
         (n3, select_rows (row_mask (length xs) [(n1, xs), (n2, d), (n3, c)]) c)]\<rparr>"
  using assms by (simp add: df_dropna_def Let_def)

lemmas run_defs = compute_returns_def bind_io_def copy_def new_frame_def getitem_def setitem_def
      dropna_def df_getitem_def df_setitem_def Let_def pct_change_def ffill_def shift_def
      fillna_def cumprod_def fsub_def df_dropna_def select_rows_def initial_state_def

lemmas eval_defs = run_defs scale_inf_def range64_small range64_0

text \<open>The run on the overflowing sample prices: the third row is dropped.\<close>

lemma overflow_run:
  "compute_returns fm 0 (snd (new_frame overflow_prices initial_state)) =
     (Inr 2, snd (compute_returns fm 0 (snd (new_frame overflow_prices initial_state))))"
  "df_getitem (frames (snd (compute_returns fm 0 (snd (new_frame overflow_prices initial_state)))) 2)
      ''daily_return'' = Inr [Fin 0, PInf]"
  "df_getitem (frames (snd (compute_returns fm 0 (snd (new_frame overflow_prices initial_state)))) 2)
      ''adj_close'' = Inr [Fin tiny_price, Fin huge_price]"
  "index (frames (snd (compute_returns fm 0 (snd (new_frame overflow_prices initial_state)))) 2)
      = [Datetime 2024 1 2 0 0 0, Datetime 2024 1 3 0 0 0]"
  by (cases fm; simp add: run_defs scale_inf_def range64_1 range64_0 overflow_quotient
      underflow_quotient fdiv_NaN_right overflow_prices_def del: fdiv.simps)+

subsection \<open>Claims\<close>

text \<open>
  C1. On the frame \<open>compute_returns\<close> returns, one plus the cumulative return of
  row \<open>i\<close> is the product of the growth factors \<open>1 + daily_return\<close> of the rows
  \<open>0..i\<close>; as whole columns, the incremental running product of the growth factors is
  the column of \<open>1 + cumulative_return\<close>. This holds for every price column, rows with
  missing prices and rows after an undefined product having been dropped.
\<close>

theorem cumulative_return_is_growth_product:
  assumes cols: "columns (frames s ph) = [(''adj_close'', xs)]"
    and len: "length (index (frames s ph)) = length xs"
  shows "\<exists>s' d c. compute_returns fm ph s = (Inr (Suc (next_ref s)), s')
     \<and> df_getitem (frames s' (Suc (next_ref s))) ''daily_return'' = Inr d
     \<and> df_getitem (frames s' (Suc (next_ref s))) ''cumulative_return'' = Inr c
     \<and> length c = length d
     \<and> map (fadd (Fin 1)) c = cumprod (map (fadd (Fin 1)) d)
     \<and> (\<forall>i<length d. fadd (Fin 1) (c ! i) = growth_product d i)"
proof -
  define d where "d = fillna (Fin 0) (pct_change fm xs)"
  define c where "c = map (\<lambda>x. fsub x (Fin 1)) (cumprod (map (fadd (Fin 1)) d))"
  define keep where
    "keep = row_mask (length xs) [(''adj_close'', xs), (''daily_return'', d),
       (''cumulative_return'', c)]"
  from compute_returns_result [OF cols, of fm] obtain s'
    where run: "compute_returns fm ph s = (Inr (Suc (next_ref s)), s')"
      and out: "frames s' (Suc (next_ref s)) =
         df_dropna ((frames s ph)\<lparr>columns :=
           [(''adj_close'', xs), (''daily_return'', d), (''cumulative_return'', c)]\<rparr>)"
    unfolding d_def c_def by blast
  let ?d = "select_rows keep d" and ?c = "select_rows keep c"
  have gd: "df_getitem (frames s' (Suc (next_ref s))) ''daily_return'' = Inr ?d"
    by (simp add: out df_dropna_def df_getitem_def len keep_def Let_def)
  have gc: "df_getitem (frames s' (Suc (next_ref s))) ''cumulative_return'' = Inr ?c"
    by (simp add: out df_dropna_def df_getitem_def len keep_def Let_def)
  have prod: "map (fadd (Fin 1)) ?c = cumprod (map (fadd (Fin 1)) ?d)"
    by (rule kept_rows_product [OF d_def c_def keep_def])
  have lcd: "length ?c = length ?d"
    using arg_cong [OF prod, of length] by (simp add: cumprod_def length_cumprod_from)
  have nn: "NaN \<notin> set ?d"
    using select_rows_set [of keep d] fillna_no_NaN [of "Fin 0" "pct_change fm xs"]
    by (auto simp add: d_def)
  have idx: "fadd (Fin 1) (?c ! i) = growth_product ?d i" if i: "i < length ?d" for i
  proof -
    have "fadd (Fin 1) (?c ! i) = map (fadd (Fin 1)) ?c ! i"
      using i lcd by simp
    also have "\<dots> = cumprod (map (fadd (Fin 1)) ?d) ! i"
      by (simp only: prod)
    also have "\<dots> = growth_product ?d i"
      by (rule cumprod_growth_product [OF nn i])
    finally show ?thesis .
  qed
  from run gd gc lcd prod idx show ?thesis by blast
qed

theorem cumulative_return_is_growth_product_witness:
  "df_getitem (frames (snd (compute_returns Pad 0 (snd (new_frame gap_prices initial_state)))) 2)
      ''daily_return'' = Inr [Fin 0, Fin (1 / 10)]
   \<and> df_getitem (frames (snd (compute_returns Pad 0 (snd (new_frame gap_prices initial_state)))) 2)
      ''cumulative_return'' = Inr [Fin 0, Fin (1 / 10)]
   \<and> fadd (Fin 1) ([Fin 0, Fin (1 / 10)] ! 1) = growth_product [Fin 0, Fin (1 / 10)] 1
   \<and> growth_product [Fin 0, Fin (1 / 10)] 1 = Fin (11 / 10)"
proof -
  let ?s = "snd (new_frame gap_prices initial_state)"
  have cols: "columns (frames ?s 0) = [(''adj_close'', [Fin 100, NaN, Fin 110])]"
    and len: "length (index (frames ?s 0)) = length [Fin 100, NaN, Fin 110]"
    and nr: "Suc (next_ref ?s) = 2"
    by (simp_all add: new_frame_def initial_state_def gap_prices_def)
  from cumulative_return_is_growth_product [OF cols len, of Pad] obtain s' d c
    where run: "compute_returns Pad 0 ?s = (Inr 2, s')"
      and d: "df_getitem (frames s' 2) ''daily_return'' = Inr d"
      and c: "df_getitem (frames s' 2) ''cumulative_return'' = Inr c"
      and p: "\<forall>i<length d. fadd (Fin 1) (c ! i) = growth_product d i"
    unfolding nr by blast
  have s': "s' = snd (compute_returns Pad 0 ?s)" by (simp add: run)
  have dv: "df_getitem (frames (snd (compute_returns Pad 0 ?s)) 2) ''daily_return''
      = Inr [Fin 0, Fin (1 / 10)]"
    by (simp add: eval_defs gap_prices_def)
  have cv: "df_getitem (frames (snd (compute_returns Pad 0 ?s)) 2) ''cumulative_return''
      = Inr [Fin 0, Fin (1 / 10)]"
    by (simp add: eval_defs gap_prices_def)
  from d dv have d2: "d = [Fin 0, Fin (1 / 10)]" by (simp add: s')
  from c cv have c2: "c = [Fin 0, Fin (1 / 10)]" by (simp add: s')
  from p have "1 < length d \<longrightarrow> fadd (Fin 1) (c ! 1) = growth_product d 1"
    by (rule spec)
  then have "fadd (Fin 1) ([Fin 0, Fin (1 / 10)] ! 1) = growth_product [Fin 0, Fin (1 / 10)] 1"
    unfolding d2 c2 by simp
  moreover have "growth_product [Fin 0, Fin (1 / 10)] 1 = Fin (11 / 10)"
    by (simp add: growth_product_def eval_defs)
  ultimately show ?thesis using dv cv by simp
qed



text \<open>
  C3. \<open>fetch_price_history\<close> raises the no-data error (the RuntimeError the
  specification calls NoDataError) exactly when the provider returns an empty frame;
  and whenever it raises, \<open>main\<close> ends with that error, having printed nothing and
  shown no chart.
\<close>

theorem fetch_no_data_aborts_run:
  "((fst (fetch_price_history dl cfg s) = Inl NoDataError) =
      (\<exists>df. dl (ticker cfg) (start_date cfg) (end_date cfg) = Inr df \<and> df_empty df))
   \<and> (\<forall>e. fst (fetch_price_history dl (parse_args args) s) = Inl e \<longrightarrow>
         fst (main dl parse fm args s) = Inl e
         \<and> stdout (snd (main dl parse fm args s)) = stdout s
         \<and> figures (snd (main dl parse fm args s)) = figures s)"
proof (intro conjI allI impI)
  show "(fst (fetch_price_history dl cfg s) = Inl NoDataError) =
      (\<exists>df. dl (ticker cfg) (start_date cfg) (end_date cfg) = Inr df \<and> df_empty df)"
    by (auto simp add: fetch_price_history_cases NoDataError_def new_frame_def Let_def
        df_select_def split: sum.splits option.splits)
next
  fix e assume a: "fst (fetch_price_history dl (parse_args args) s) = Inl e"
  obtain s' where f: "fetch_price_history dl (parse_args args) s = (Inl e, s')"
    using a by (cases "fetch_price_history dl (parse_args args) s") simp
  have m: "main dl parse fm args s = (Inl e, s')"
    by (rule main_after_fetch_error [OF f])
  show "fst (main dl parse fm args s) = Inl e" by (simp add: m)
  from fetch_price_history_output [of dl "parse_args args" s]
  show "stdout (snd (main dl parse fm args s)) = stdout s" by (simp add: m f)
  from fetch_price_history_output [of dl "parse_args args" s]
  show "figures (snd (main dl parse fm args s)) = figures s" by (simp add: m f)
qed

theorem fetch_no_data_aborts_run_witness:
  "fst (fetch_price_history empty_provider (parse_args \<lparr>arg_ticker = Some ''NOSUCH'',
          arg_start_date = None, arg_end_date = None\<rparr>) initial_state) = Inl NoDataError
   \<and> fst (main empty_provider default_dates_parse Pad \<lparr>arg_ticker = Some ''NOSUCH'',
          arg_start_date = None, arg_end_date = None\<rparr> initial_state) = Inl NoDataError
   \<and> stdout (snd (main empty_provider default_dates_parse Pad \<lparr>arg_ticker = Some ''NOSUCH'',
          arg_start_date = None, arg_end_date = None\<rparr> initial_state)) = []
   \<and> figures (snd (main empty_provider default_dates_parse Pad \<lparr>arg_ticker = Some ''NOSUCH'',
          arg_start_date = None, arg_end_date = None\<rparr> initial_state)) = []"
proof -
  let ?args = "\<lparr>arg_ticker = Some ''NOSUCH'', arg_start_date = None, arg_end_date = None\<rparr>"
  have f: "fst (fetch_price_history empty_provider (parse_args ?args) initial_state)
      = Inl NoDataError"
    by (simp add: fetch_price_history_cases empty_provider_def df_empty_def NoDataError_def)
  from fetch_no_data_aborts_run [where dl = empty_provider and s = initial_state
      and args = ?args and parse = default_dates_parse and fm = Pad
      and cfg = "parse_args ?args"] f
  show ?thesis by (simp add: initial_state_def)
qed

text \<open>
  C4, as stated, fails: the prices \<open>[1, 0, 1]\<close> have no missing value, yet the daily
  returns are \<open>[0, -1, inf]\<close>, the running product is \<open>[1, 0, 0 * inf]\<close>, its last
  entry is NaN, and \<open>dropna\<close> drops the third day.
\<close>

theorem zero_price_drops_row:
  "columns zero_prices = [(''adj_close'', [Fin 1, Fin 0, Fin 1])]
   \<and> fst (compute_returns Pad 0 (snd (new_frame zero_prices initial_state))) = Inr 2
   \<and> index (frames (snd (compute_returns Pad 0 (snd (new_frame zero_prices initial_state)))) 2)
       = [Datetime 2024 1 2 0 0 0, Datetime 2024 1 3 0 0 0]
   \<and> index (frames (snd (compute_returns NoFill 0 (snd (new_frame zero_prices initial_state)))) 2)
       = [Datetime 2024 1 2 0 0 0, Datetime 2024 1 3 0 0 0]
   \<and> index (frames (snd (compute_returns Pad 0 (snd (new_frame zero_prices initial_state)))) 2)
       \<noteq> index zero_prices"
  by (simp add: run_defs zero_prices_def scale_inf_def range64_0 range64_1)

text \<open>
  C4, amended. \<open>compute_returns\<close> keeps exactly the rows whose adjusted close is
  present and whose cumulative return is defined (not NaN), in the order of the input.
  So for a price column with no missing value the dates of the result are a prefix of
  the dates of the input, and they are all of them when no cumulative return is NaN.
  For any input on which it returns, the dates of the result are a subsequence of the
  dates of the input, so the result has at most as many rows.
\<close>

theorem compute_returns_dates:
  "(compute_returns fm ph s = (Inr r, s2) \<longrightarrow>
        subseq (index (frames s2 r)) (index (frames s ph))
        \<and> length (index (frames s2 r)) \<le> length (index (frames s ph)))
   \<and> (columns (frames s ph) = [(''adj_close'', xs)]
        \<and> length (index (frames s ph)) = length xs \<longrightarrow>
      (\<exists>s' c. compute_returns fm ph s = (Inr (Suc (next_ref s)), s')
         \<and> df_getitem (frames s' (next_ref s)) ''cumulative_return'' = Inr c
         \<and> length c = length xs
         \<and> index (frames s' (Suc (next_ref s))) =
             map fst (filter (\<lambda>(t, x, y). x \<noteq> NaN \<and> y \<noteq> NaN)
               (zip (index (frames s ph)) (zip xs c)))
         \<and> (NaN \<notin> set xs \<and> NaN \<notin> set c \<longrightarrow>
               index (frames s' (Suc (next_ref s))) = index (frames s ph))
         \<and> (NaN \<notin> set xs \<longrightarrow>
               (\<exists>n. index (frames s' (Suc (next_ref s))) = take n (index (frames s ph))))))"
proof (intro conjI impI)
  assume "compute_returns fm ph s = (Inr r, s2)"
  then obtain keep where k: "index (frames s2 r) = select_rows keep (index (frames s ph))"
    by (auto dest: compute_returns_index)
  show "subseq (index (frames s2 r)) (index (frames s ph))"
    unfolding k by (rule select_rows_subseq)
  then show "length (index (frames s2 r)) \<le> length (index (frames s ph))"
    by (rule list_emb_length)
next
  assume a: "columns (frames s ph) = [(''adj_close'', xs)]
        \<and> length (index (frames s ph)) = length xs"
  then have cols: "columns (frames s ph) = [(''adj_close'', xs)]"
    and len: "length (index (frames s ph)) = length xs" by simp_all
  define d where "d = fillna (Fin 0) (pct_change fm xs)"
  define c where "c = map (\<lambda>x. fsub x (Fin 1)) (cumprod (map (fadd (Fin 1)) d))"
  define K where "K = row_mask (length xs)
     [(''adj_close'', xs), (''daily_return'', d), (''cumulative_return'', c)]"
  have ld: "length d = length xs" by (simp add: d_def length_fillna length_pct_change)
  have lc: "length c = length xs" by (simp add: c_def cumprod_def length_cumprod_from ld)
  have nd: "NaN \<notin> set d" by (simp add: d_def fillna_no_NaN)
  from compute_returns_frames_after [OF cols, of fm] obtain s'
    where run: "compute_returns fm ph s = (Inr (Suc (next_ref s)), s')"
      and mid: "frames s' (next_ref s) = (frames s ph)\<lparr>columns :=
           [(''adj_close'', xs), (''daily_return'', d), (''cumulative_return'', c)]\<rparr>"
      and out: "frames s' (Suc (next_ref s)) = df_dropna (frames s' (next_ref s))"
    unfolding d_def c_def by blast
  have res: "index (frames s' (Suc (next_ref s))) = select_rows K (index (frames s ph))"
    unfolding out mid K_def by (simp add: dropna_three [OF len])
  have gc: "df_getitem (frames s' (next_ref s)) ''cumulative_return'' = Inr c"
    by (simp add: mid df_getitem_def)
  have Kf: "K = map (\<lambda>(x, y). x \<noteq> NaN \<and> y \<noteq> NaN) (zip xs c)"
    unfolding K_def by (rule row_mask_price_and_return [OF refl ld lc nd])
  have filt: "index (frames s' (Suc (next_ref s))) =
      map fst (filter (\<lambda>(t, x, y). x \<noteq> NaN \<and> y \<noteq> NaN) (zip (index (frames s ph)) (zip xs c)))"
    unfolding res Kf by (subst select_rows_filter) (simp_all add: len lc)
  have all: "index (frames s' (Suc (next_ref s))) = index (frames s ph)"
    if "NaN \<notin> set xs \<and> NaN \<notin> set c"
  proof -
    from that have "K = replicate (length xs) True"
      unfolding K_def by (intro row_mask_all [OF refl ld lc _ nd]) simp_all
    then show ?thesis by (simp add: res select_rows_all len)
  qed
  have pre: "\<exists>n. index (frames s' (Suc (next_ref s))) = take n (index (frames s ph))"
    if nx: "NaN \<notin> set xs"
  proof -
    from kept_rows_prefix [OF d_def c_def nx, of "''adj_close''" "''daily_return''"
        "''cumulative_return''"]
    obtain n where n: "n \<le> length xs"
      and K: "K = replicate n True @ replicate (length xs - n) False"
      unfolding K_def by blast
    have "select_rows K (index (frames s ph)) = take n (index (frames s ph))"
      unfolding K using n by (intro select_rows_prefix) (simp add: len)
    then show ?thesis by (auto simp add: res)
  qed
  from run gc lc filt all pre
  show "\<exists>s' c. compute_returns fm ph s = (Inr (Suc (next_ref s)), s')
         \<and> df_getitem (frames s' (next_ref s)) ''cumulative_return'' = Inr c
         \<and> length c = length xs
         \<and> index (frames s' (Suc (next_ref s))) =
             map fst (filter (\<lambda>(t, x, y). x \<noteq> NaN \<and> y \<noteq> NaN)
               (zip (index (frames s ph)) (zip xs c)))
         \<and> (NaN \<notin> set xs \<and> NaN \<notin> set c \<longrightarrow>
               index (frames s' (Suc (next_ref s))) = index (frames s ph))
         \<and> (NaN \<notin> set xs \<longrightarrow>
               (\<exists>n. index (frames s' (Suc (next_ref s))) = take n (index (frames s ph))))"
    by blast
qed

theorem compute_returns_dates_witness:
  "index (frames (snd (compute_returns Pad 0 (snd (new_frame sample_prices initial_state)))) 2)
     = index sample_prices
   \<and> subseq
       (index (frames (snd (compute_returns Pad 0 (snd (new_frame gap_prices initial_state)))) 2))
       (index gap_prices)
   \<and> index (frames (snd (compute_returns Pad 0 (snd (new_frame gap_prices initial_state)))) 2)
     = [Datetime 2024 1 2 0 0 0, Datetime 2024 1 4 0 0 0]
   \<and> index (frames (snd (compute_returns Pad 0 (snd (new_frame overflow_prices initial_state)))) 2)
     = take 2 (index overflow_prices)"
proof -
  let ?s = "snd (new_frame sample_prices initial_state)"
  let ?g = "snd (new_frame gap_prices initial_state)"
  have 3: "index (frames (snd (compute_returns Pad 0 (snd (new_frame overflow_prices initial_state)))) 2)
     = take 2 (index overflow_prices)"
    unfolding overflow_run(4) by (simp add: overflow_prices_def)
  let ?xs = "[Fin 100, Fin 110, Fin 99]"
  have a: "columns (frames ?s 0) = [(''adj_close'', ?xs)]
      \<and> length (index (frames ?s 0)) = length ?xs"
    and nr: "next_ref ?s = 1"
    and i0: "index (frames ?s 0) = index sample_prices"
    by (simp_all add: new_frame_def initial_state_def sample_prices_def)
  have cv: "df_getitem (frames (snd (compute_returns Pad 0 ?s)) 1) ''cumulative_return''
      = Inr [Fin 0, Fin (1 / 10), Fin (- (1 / 100))]"
    by (simp add: eval_defs sample_prices_def)
  have g: "compute_returns Pad 0 ?g = (Inr 2, snd (compute_returns Pad 0 ?g))"
    and gi: "index (frames ?g 0) = index gap_prices"
    and gv: "index (frames (snd (compute_returns Pad 0 ?g)) 2)
       = [Datetime 2024 1 2 0 0 0, Datetime 2024 1 4 0 0 0]"
    by (simp_all add: eval_defs gap_prices_def)
  from compute_returns_dates [where s = ?s and ph = 0 and xs = ?xs and fm = Pad
      and r = 2 and ?s2.0 = "snd (compute_returns Pad 0 ?s)"] a
  obtain s' c where run: "compute_returns Pad 0 ?s = (Inr (Suc 1), s')"
    and c: "df_getitem (frames s' 1) ''cumulative_return'' = Inr c"
    and keep: "NaN \<notin> set ?xs \<and> NaN \<notin> set c \<longrightarrow>
       index (frames s' (Suc 1)) = index (frames ?s 0)"
    unfolding nr by blast
  from c cv run have "c = [Fin 0, Fin (1 / 10), Fin (- (1 / 100))]" by simp
  with keep run have 1: "index (frames (snd (compute_returns Pad 0 ?s)) 2) = index sample_prices"
    by (simp add: i0 numeral_2_eq_2)
  from compute_returns_dates [where s = ?g and ph = 0 and xs = "[]" and fm = Pad
      and r = 2 and ?s2.0 = "snd (compute_returns Pad 0 ?g)"] g
  have 2: "subseq (index (frames (snd (compute_returns Pad 0 ?g)) 2)) (index gap_prices)"
    unfolding gi by blast
  from 1 2 3 gv show ?thesis by simp
qed

text \<open>
  C5. For a return frame with at least one row, \<open>summarize_returns\<close> prints, after
  the header with the configured dates, the adjusted close of the first row, the
  adjusted close of the last row and the cumulative return of the last row: the values
  are those of the frame, whatever the configured dates are.
\<close>

theorem summarize_returns_prints_series_values:
  assumes "date_range parse cfg = Inr (sd, ed)"
    and "df_getitem (frames s r) ''adj_close'' = Inr a"
    and "df_getitem (frames s r) ''cumulative_return'' = Inr c"
    and "a \<noteq> []" and "c \<noteq> []"
  shows "summarize_returns parse r cfg s =
    (Inr (), s\<lparr>stdout := stdout s @
       [[Text ''Summary for '', StrField (ticker cfg), Text '' from '',
         DateField sd ''%Y-%m-%d'', Text '' to '', DateField ed ''%Y-%m-%d'', Text '':''],
        [Text ''  Starting adjusted close: $'', FloatField (hd a) '',.2f''],
        [Text ''  Ending adjusted close:   $'', FloatField (last a) '',.2f''],
        [Text ''  Total cumulative return: '', FloatField (last c) ''.2%'']]\<rparr>)"
  by (rule summarize_returns_exec [OF assms])

theorem summarize_returns_prints_series_values_witness:
  "summarize_returns default_dates_parse 0 (AnalysisConfig_init None None None)
     (snd (new_frame sample_returns initial_state)) =
    (Inr (), (snd (new_frame sample_returns initial_state))\<lparr>stdout :=
       [[Text ''Summary for '', StrField ''^IXIC'', Text '' from '',
         DateField (Datetime 2005 1 1 0 0 0) ''%Y-%m-%d'', Text '' to '',
         DateField (Datetime 2025 10 28 0 0 0) ''%Y-%m-%d'', Text '':''],
        [Text ''  Starting adjusted close: $'', FloatField (Fin 100) '',.2f''],
        [Text ''  Ending adjusted close:   $'', FloatField (Fin 99) '',.2f''],
        [Text ''  Total cumulative return: '', FloatField (Fin (- (1 / 100))) ''.2%'']]\<rparr>)"
  using summarize_returns_prints_series_values [where parse = default_dates_parse
      and cfg = "AnalysisConfig_init None None None"
      and sd = "Datetime 2005 1 1 0 0 0" and ed = "Datetime 2025 10 28 0 0 0"
      and s = "snd (new_frame sample_returns initial_state)" and r = 0
      and a = "[Fin 100, Fin 110, Fin 99]"
      and c = "[Fin 0, Fin (1 / 10), Fin (- (1 / 100))]"]
  by (simp add: date_range_def fromisoformat_def bind_err_def default_dates_parse_def
      AnalysisConfig_init_def new_frame_def initial_state_def sample_returns_def df_getitem_def)

text \<open>
  C6. Constructing an \<open>AnalysisConfig\<close> always succeeds: each field is the supplied
  string or its default (\<open>^IXIC\<close>, \<open>2005-01-01\<close>, \<open>2025-10-28\<close>), and neither the
  order of the dates nor the ticker is checked, so a start date after the end date is
  stored as given.
\<close>

theorem AnalysisConfig_init_defaults:
  "AnalysisConfig_init t s e =
     \<lparr>ticker = (case t of None \<Rightarrow> ''^IXIC'' | Some v \<Rightarrow> v),
      start_date = (case s of None \<Rightarrow> ''2005-01-01'' | Some v \<Rightarrow> v),
      end_date = (case e of None \<Rightarrow> ''2025-10-28'' | Some v \<Rightarrow> v)\<rparr>
   \<and> AnalysisConfig_init None None None =
     \<lparr>ticker = ''^IXIC'', start_date = ''2005-01-01'', end_date = ''2025-10-28''\<rparr>
   \<and> AnalysisConfig_init (Some tk) (Some sd) (Some ed) =
     \<lparr>ticker = tk, start_date = sd, end_date = ed\<rparr>
   \<and> AnalysisConfig_init (Some ''NOSUCH'') (Some ''2025-01-01'') (Some ''2020-01-01'') =
     \<lparr>ticker = ''NOSUCH'', start_date = ''2025-01-01'', end_date = ''2020-01-01''\<rparr>
   \<and> parse_args \<lparr>arg_ticker = a1, arg_start_date = a2, arg_end_date = a3\<rparr> =
     AnalysisConfig_init a1 a2 a3"
  by (simp add: AnalysisConfig_init_def parse_args_def split: option.split)



text \<open>
  C8. For the prices \<open>[100, 110, 99]\<close> on three days, \<open>compute_returns\<close> returns a
  new frame with the same three days, daily returns \<open>[0, 1/10, -1/10]\<close> and cumulative
  returns \<open>[0, 1/10, -1/100]\<close>, under either fill method.
\<close>

theorem compute_returns_scenario:
  assumes "frames s ph =
     \<lparr>index = [d1, d2, d3], columns = [(''adj_close'', [Fin 100, Fin 110, Fin 99])]\<rparr>"
  shows "\<exists>s'. compute_returns fm ph s = (Inr (Suc (next_ref s)), s')
     \<and> frames s' (Suc (next_ref s)) =
       \<lparr>index = [d1, d2, d3],
        columns = [(''adj_close'', [Fin 100, Fin 110, Fin 99]),
                   (''daily_return'', [Fin 0, Fin (1 / 10), Fin (- (1 / 10))]),
                   (''cumulative_return'', [Fin 0, Fin (1 / 10), Fin (- (1 / 100))])]\<rparr>"
  using assms by (cases fm) (simp_all add: compute_returns_def bind_io_def copy_def new_frame_def
      getitem_def setitem_def dropna_def df_getitem_def df_setitem_def Let_def pct_change_def
      ffill_def shift_def fillna_def cumprod_def fsub_def df_dropna_def select_rows_def
      range64_small)

theorem compute_returns_scenario_witness:
  "fst (compute_returns Pad 0 (snd (new_frame sample_prices initial_state))) = Inr 2
   \<and> frames (snd (compute_returns Pad 0 (snd (new_frame sample_prices initial_state)))) 2 =
       \<lparr>index = [Datetime 2024 1 2 0 0 0, Datetime 2024 1 3 0 0 0, Datetime 2024 1 4 0 0 0],
        columns = [(''adj_close'', [Fin 100, Fin 110, Fin 99]),
                   (''daily_return'', [Fin 0, Fin (1 / 10), Fin (- (1 / 10))]),
                   (''cumulative_return'', [Fin 0, Fin (1 / 10), Fin (- (1 / 100))])]\<rparr>"
  using compute_returns_scenario [of "snd (new_frame sample_prices initial_state)" 0
      "Datetime 2024 1 2 0 0 0" "Datetime 2024 1 3 0 0 0" "Datetime 2024 1 4 0 0 0" Pad]
  by (auto simp add: new_frame_def initial_state_def sample_prices_def numeral_2_eq_2)

text \<open>
  C9. \<open>compute_returns\<close> leaves every frame object that existed before the call as
  it was, its input among them; \<open>summarize_returns\<close> and \<open>plot_returns\<close> change no
  frame at all; so the frame \<open>fetch_price_history\<close> returned is the same at the end
  of \<open>main\<close> as when it was fetched.
\<close>

theorem price_history_never_mutated:
  "(r < next_ref s \<longrightarrow> frames (snd (compute_returns fm ph s)) r = frames s r)
   \<and> frames (snd (summarize_returns parse ret cfg s)) = frames s
   \<and> frames (snd (plot_returns ret cfg s)) = frames s
   \<and> (fetch_price_history dl (parse_args args) s0 = (Inr ph, s1) \<longrightarrow>
        frames (snd (main dl parse fm args s0)) ph = frames s1 ph)"
proof (intro conjI impI)
  assume f: "fetch_price_history dl (parse_args args) s0 = (Inr ph, s1)"
  have ph: "ph < next_ref s1" by (rule fetch_price_history_ref [OF f])
  obtain res s2 where c: "compute_returns fm ph s1 = (res, s2)"
    by (cases "compute_returns fm ph s1")
  have s2: "frames s2 ph = frames s1 ph"
    using compute_returns_frames [OF ph, of fm ph] by (simp add: c)
  show "frames (snd (main dl parse fm args s0)) ph = frames s1 ph"
  proof (cases res)
    case (Inl e)
    then show ?thesis by (simp add: main_after_fetch [OF f] bind_io_def c s2)
  next
    case (Inr ret')
    obtain res3 s3 where sm: "summarize_returns parse ret' (parse_args args) s2 = (res3, s3)"
      by (cases "summarize_returns parse ret' (parse_args args) s2")
    have s3: "frames s3 = frames s2"
      using summarize_returns_frames [of parse ret' "parse_args args" s2] by (simp add: sm)
    show ?thesis
      by (cases res3) (simp_all add: main_after_fetch [OF f] bind_io_def c Inr sm s3 s2
          plot_returns_frames)
  qed
qed (simp_all add: compute_returns_frames summarize_returns_frames plot_returns_frames)

theorem price_history_never_mutated_witness:
  "fetch_price_history sample_provider (parse_args \<lparr>arg_ticker = None,
       arg_start_date = None, arg_end_date = None\<rparr>) initial_state
     = (Inr 1, snd (fetch_price_history sample_provider (parse_args \<lparr>arg_ticker = None,
       arg_start_date = None, arg_end_date = None\<rparr>) initial_state))
   \<and> frames (snd (main sample_provider default_dates_parse Pad \<lparr>arg_ticker = None,
       arg_start_date = None, arg_end_date = None\<rparr> initial_state)) 1 = sample_prices
   \<and> frames (snd (compute_returns Pad 1 (snd (fetch_price_history sample_provider
       (parse_args \<lparr>arg_ticker = None, arg_start_date = None, arg_end_date = None\<rparr>)
       initial_state)))) 1 = sample_prices"
proof -
  let ?args = "\<lparr>arg_ticker = None, arg_start_date = None, arg_end_date = None\<rparr>"
  let ?s1 = "snd (fetch_price_history sample_provider (parse_args ?args) initial_state)"
  have f: "fetch_price_history sample_provider (parse_args ?args) initial_state = (Inr 1, ?s1)"
    by (simp add: fetch_price_history_cases sample_provider_def df_empty_def df_select_def
        new_frame_def initial_state_def)
  have s1: "frames ?s1 1 = sample_prices \<and> next_ref ?s1 = 2"
    by (simp add: fetch_price_history_cases sample_provider_def df_empty_def df_select_def
        new_frame_def initial_state_def df_rename_def sample_prices_def)
  from price_history_never_mutated [where r = 1 and s = ?s1 and fm = Pad and ph = 1
      and dl = sample_provider and args = ?args and ?s1.0 = ?s1
      and ?s0.0 = initial_state and parse = default_dates_parse] f s1
  show ?thesis by simp
qed

text \<open>
  C10. On a return frame with no rows \<open>summarize_returns\<close> fails and prints nothing:
  with an IndexError from the first positional access when the configured dates parse.
  On a non-empty series the positions \<open>0\<close> and \<open>-1\<close> are in bounds, and
  \<open>summarize_returns\<close> does not raise IndexError.
\<close>

theorem summarize_returns_needs_rows:
  "(df_getitem (frames s r) ''adj_close'' = Inr [] \<longrightarrow>
      isl (fst (summarize_returns parse r cfg s))
      \<and> snd (summarize_returns parse r cfg s) = s
      \<and> (\<forall>sd ed. date_range parse cfg = Inr (sd, ed) \<longrightarrow>
            fst (summarize_returns parse r cfg s) =
              Inl (IndexError ''single positional indexer is out-of-bounds'')))
   \<and> (a \<noteq> [] \<longrightarrow> iloc a 0 = Inr (hd a) \<and> iloc a (- 1) = Inr (last a))
   \<and> (df_getitem (frames s r) ''adj_close'' = Inr a
        \<and> df_getitem (frames s r) ''cumulative_return'' = Inr c \<and> a \<noteq> [] \<and> c \<noteq> [] \<longrightarrow>
        (\<forall>msg. fst (summarize_returns parse r cfg s) \<noteq> Inl (IndexError msg)))"
proof (intro conjI impI allI)
  assume e: "df_getitem (frames s r) ''adj_close'' = Inr []"
  show "isl (fst (summarize_returns parse r cfg s))"
  proof (cases "date_range parse cfg")
    case (Inl err)
    then show ?thesis by (simp add: summarize_returns_date_error)
  next
    case (Inr p)
    then show ?thesis by (cases p) (simp add: summarize_returns_empty [OF _ e])
  qed
  show "snd (summarize_returns parse r cfg s) = s"
  proof (cases "date_range parse cfg")
    case (Inl err)
    then show ?thesis by (simp add: summarize_returns_date_error)
  next
    case (Inr p)
    then show ?thesis by (cases p) (simp add: summarize_returns_empty [OF _ e])
  qed
  fix sd ed assume "date_range parse cfg = Inr (sd, ed)"
  then show "fst (summarize_returns parse r cfg s) =
      Inl (IndexError ''single positional indexer is out-of-bounds'')"
    by (simp add: summarize_returns_empty [OF _ e])
next
  assume "a \<noteq> []"
  then show "iloc a 0 = Inr (hd a)" "iloc a (- 1) = Inr (last a)"
    by (simp_all add: iloc_first iloc_last)
next
  fix msg
  assume h: "df_getitem (frames s r) ''adj_close'' = Inr a
        \<and> df_getitem (frames s r) ''cumulative_return'' = Inr c \<and> a \<noteq> [] \<and> c \<noteq> []"
  show "fst (summarize_returns parse r cfg s) \<noteq> Inl (IndexError msg)"
  proof (cases "date_range parse cfg")
    case (Inl err)
    with date_range_error [OF Inl] show ?thesis
      by (auto simp add: summarize_returns_date_error)
  next
    case (Inr p)
    with h show ?thesis
      by (cases p) (simp add: summarize_returns_exec [where a = a and c = c])
  qed
qed

theorem summarize_returns_needs_rows_witness:
  "summarize_returns default_dates_parse 0 (AnalysisConfig_init None None None)
     (snd (new_frame empty_returns initial_state)) =
     (Inl (IndexError ''single positional indexer is out-of-bounds''),
      snd (new_frame empty_returns initial_state))
   \<and> iloc [Fin 100, Fin 110, Fin 99] 0 = Inr (Fin 100)
   \<and> iloc [Fin 100, Fin 110, Fin 99] (- 1) = Inr (Fin 99)
   \<and> fst (summarize_returns default_dates_parse 0 (AnalysisConfig_init None None None)
       (snd (new_frame sample_returns initial_state))) \<noteq>
       Inl (IndexError ''single positional indexer is out-of-bounds'')"
proof -
  let ?cfg = "AnalysisConfig_init None None None"
  let ?e = "snd (new_frame empty_returns initial_state)"
  let ?s = "snd (new_frame sample_returns initial_state)"
  have d: "date_range default_dates_parse ?cfg =
      Inr (Datetime 2005 1 1 0 0 0, Datetime 2025 10 28 0 0 0)"
    by (simp add: date_range_def fromisoformat_def bind_err_def default_dates_parse_def
        AnalysisConfig_init_def)
  have e: "df_getitem (frames ?e 0) ''adj_close'' = Inr []"
    by (simp add: new_frame_def initial_state_def empty_returns_def df_getitem_def)
  have a: "df_getitem (frames ?s 0) ''adj_close'' = Inr [Fin 100, Fin 110, Fin 99]"
    "df_getitem (frames ?s 0) ''cumulative_return'' = Inr [Fin 0, Fin (1 / 10), Fin (- (1 / 100))]"
    by (simp_all add: new_frame_def initial_state_def sample_returns_def df_getitem_def)
  have 1: "fst (summarize_returns default_dates_parse 0 ?cfg ?e) =
      Inl (IndexError ''single positional indexer is out-of-bounds'')
      \<and> snd (summarize_returns default_dates_parse 0 ?cfg ?e) = ?e"
    using summarize_returns_needs_rows [where s = ?e and r = 0 and parse = default_dates_parse
        and cfg = ?cfg and a = "[]" and c = "[]"] e d
    by simp
  have 2: "iloc [Fin 100, Fin 110, Fin 99] 0 = Inr (Fin 100)
      \<and> iloc [Fin 100, Fin 110, Fin 99] (- 1) = Inr (Fin 99)
      \<and> fst (summarize_returns default_dates_parse 0 ?cfg ?s) \<noteq>
       Inl (IndexError ''single positional indexer is out-of-bounds'')"
    using summarize_returns_needs_rows [where s = ?s and r = 0 and parse = default_dates_parse
        and cfg = ?cfg and a = "[Fin 100, Fin 110, Fin 99]"
        and c = "[Fin 0, Fin (1 / 10), Fin (- (1 / 100))]"] a
    by simp
  from 1 2 show ?thesis by (simp add: prod_eq_iff)
qed

end
